theory Spec2Isabelle
  imports Main
begin

section \<open>Presentation layer: placeholder routers and the health check\<close>

text \<open>
  The handlers of \<^verbatim>\<open>src/presentation/api\<close> are declared
  \<^verbatim>\<open>async def h() -> dict[str, str]\<close>: they take no parameter and return a
  dictionary literal. A \<^verbatim>\<open>dict[str, str]\<close> is a map from strings to strings; a
  handler is a function of the empty argument list, here \<open>unit\<close>.
\<close>

type_synonym json_dict = "string \<rightharpoonup> string"

type_synonym handler = "unit \<Rightarrow> json_dict"

text \<open>\<^verbatim>\<open>admission_routes.py\<close>, lines 14-17.\<close>

definition get_admission_info :: handler where
  "get_admission_info u = [''message'' \<mapsto> ''Admission API'']"

text \<open>\<^verbatim>\<open>student_routes.py\<close>, lines 14-17.\<close>

definition get_students_info :: handler where
  "get_students_info u = [''message'' \<mapsto> ''Student API'']"

text \<open>\<^verbatim>\<open>quota_routes.py\<close>, lines 14-17.\<close>

definition get_quotas_info :: handler where
  "get_quotas_info u = [''message'' \<mapsto> ''Quota API'']"

text \<open>\<^verbatim>\<open>main.py\<close>, lines 31-34.\<close>

definition health_check :: handler where
  "health_check u = [''status'' \<mapsto> ''ok'']"

subsection \<open>Routers and the application's route table\<close>

datatype http_method = GET | HEAD | POST | PUT | PATCH | DELETE | OPTIONS

text \<open>
  A request carries more than its method and path; the route table looks at these two
  only, and the handlers at nothing at all.
\<close>

record request =
  req_method :: http_method
  req_path :: string
  req_query :: "(string \<times> string) list"
  req_headers :: "(string \<times> string) list"
  req_body :: string

type_synonym route = "http_method \<times> string \<times> handler"

text \<open>
  \<^verbatim>\<open>router = APIRouter(prefix=..., tags=[...])\<close> followed by
  \<^verbatim>\<open>@router.get("/")\<close>: a router is its prefix and the routes registered on it,
  each with the path given to the decorator.
\<close>

record APIRouter =
  prefix :: string
  routes :: "route list"

definition admission_routes_router :: APIRouter where
  "admission_routes_router =
     \<lparr>prefix = ''/api/v1/admission'', routes = [(GET, ''/'', get_admission_info)]\<rparr>"

definition student_routes_router :: APIRouter where
  "student_routes_router =
     \<lparr>prefix = ''/api/v1/students'', routes = [(GET, ''/'', get_students_info)]\<rparr>"

definition quota_routes_router :: APIRouter where
  "quota_routes_router =
     \<lparr>prefix = ''/api/v1/quotas'', routes = [(GET, ''/'', get_quotas_info)]\<rparr>"

text \<open>
  \<^verbatim>\<open>app.include_router(r)\<close> appends the routes of \<open>r\<close> to the application's
  table, each path behind the router's prefix.
\<close>

definition include_router :: "route list \<Rightarrow> APIRouter \<Rightarrow> route list" where
  "include_router table r =
     table @ map (\<lambda>(m, p, h). (m, prefix r @ p, h)) (routes r)"

text \<open>
  \<^verbatim>\<open>main.py\<close>: the health check is registered on the application first
  (line 31), then the three routers are included in the order admission, student, quota
  (lines 38-40).
\<close>

definition app :: "route list" where
  "app =
     include_router
       (include_router
         (include_router [(GET, ''/health'', health_check)] admission_routes_router)
         student_routes_router)
       quota_routes_router"

text \<open>
  The first route of the table whose method and path are those of the request serves it.
  \<open>None\<close> stands for every request that no route of this table matches; what the
  framework answers then is not part of the model.
\<close>

fun dispatch :: "route list \<Rightarrow> http_method \<Rightarrow> string \<Rightarrow> handler option" where
  "dispatch [] m p = None"
| "dispatch ((m', p', h) # rs) m p =
     (if m' = m \<and> p' = p then Some h else dispatch rs m p)"

definition serve :: "route list \<Rightarrow> request \<Rightarrow> json_dict option" where
  "serve table r = map_option (\<lambda>h. h ()) (dispatch table (req_method r) (req_path r))"

section \<open>Infrastructure: settings\<close>

text \<open>
  \<^verbatim>\<open>settings.py\<close>, lines 9-30: six typed fields, each with a default, and a
  configuration that names the file \<^verbatim>\<open>.env\<close> and asks for case-sensitive names.
\<close>

record Settings =
  ENV :: string
  DEBUG :: bool
  DATABASE_URL :: string
  API_HOST :: string
  API_PORT :: int
  LOG_LEVEL :: string

text \<open>
  The names under which the fields are looked up. With \<^verbatim>\<open>case_sensitive=True\<close>
  and no prefix, a field is looked up under exactly its own name.
\<close>

definition field_names :: "string list" where
  "field_names =
     [''ENV'', ''DEBUG'', ''DATABASE_URL'', ''API_HOST'', ''API_PORT'', ''LOG_LEVEL'']"

type_synonym environ = "string \<rightharpoonup> string"

text \<open>
  The \<^verbatim>\<open>.env\<close> file named by \<^verbatim>\<open>model_config\<close>, as the dictionary the
  settings library reads from it: its entries, each a name as it is written in the file
  with its value, no name twice.
\<close>

type_synonym dotenv = "(string \<times> string) list"

text \<open>
  \<^verbatim>\<open>Settings()\<close> is called with no argument, so a field's raw value comes from the
  process environment, else from the \<^verbatim>\<open>.env\<close> file, else the field keeps its
  default.
\<close>

definition raw_value :: "environ \<Rightarrow> dotenv \<Rightarrow> string \<Rightarrow> string option" where
  "raw_value env dotenv name =
     (case env name of Some v \<Rightarrow> Some v | None \<Rightarrow> map_of dotenv name)"

datatype settings_error = ValidationError string

text \<open>
  A raw value is a string and is validated against the field's type; a value that does
  not validate is an error that names the field. The validators of \<open>bool\<close> and
  \<open>int\<close> belong to the settings library, not to this repository: they are
  parameters. A default is taken as it is declared.
\<close>

definition field :: "(string \<Rightarrow> 'a option) \<Rightarrow> environ \<Rightarrow> dotenv \<Rightarrow> string \<Rightarrow> 'a
    \<Rightarrow> settings_error + 'a" where
  "field validate env dotenv name dflt =
     (case raw_value env dotenv name of
        None \<Rightarrow> Inr dflt
      | Some raw \<Rightarrow>
          (case validate raw of
             None \<Rightarrow> Inl (ValidationError name)
           | Some v \<Rightarrow> Inr v))"

text \<open>
  \<^verbatim>\<open>model_config\<close> (lines 26-30) sets \<^verbatim>\<open>env_file\<close>,
  \<^verbatim>\<open>env_file_encoding\<close> and \<^verbatim>\<open>case_sensitive\<close> and leaves
  \<^verbatim>\<open>extra\<close> as \<^verbatim>\<open>BaseSettings\<close> has it: \<^verbatim>\<open>forbid\<close>. The library
  hands every entry of the \<^verbatim>\<open>.env\<close> file to the model, so an entry under a name
  that is not a field's is an extra input, and an extra input is a validation error
  that names it. Names are compared as written: under \<^verbatim>\<open>case_sensitive=True\<close>
  the entry \<^verbatim>\<open>debug\<close> is not the field \<^verbatim>\<open>DEBUG\<close>. Variables of the process
  environment are only looked up under the fields' names; the others are not inputs.
\<close>

definition extra_inputs :: "dotenv \<Rightarrow> string list" where
  "extra_inputs dotenv = filter (\<lambda>name. name \<notin> set field_names) (map fst dotenv)"

definition forbid_extra :: "dotenv \<Rightarrow> settings_error + unit" where
  "forbid_extra dotenv =
     (case extra_inputs dotenv of
        [] \<Rightarrow> Inr ()
      | name # names \<Rightarrow> Inl (ValidationError name))"

definition bind_field :: "settings_error + 'a \<Rightarrow> ('a \<Rightarrow> settings_error + 'b)
    \<Rightarrow> settings_error + 'b" where
  "bind_field x f = (case x of Inl e \<Rightarrow> Inl e | Inr v \<Rightarrow> f v)"

text \<open>
  The library reports every invalid input in one error, the fields' before the extra
  inputs'; the model keeps the first of them.
\<close>

definition Settings_init :: "(string \<Rightarrow> bool option) \<Rightarrow> (string \<Rightarrow> int option)
    \<Rightarrow> environ \<Rightarrow> dotenv \<Rightarrow> settings_error + Settings" where
  "Settings_init validate_bool validate_int env dotenv =
     bind_field (field Some env dotenv ''ENV'' ''development'') (\<lambda>v_env.
     bind_field (field validate_bool env dotenv ''DEBUG'' False) (\<lambda>v_debug.
     bind_field (field Some env dotenv ''DATABASE_URL'' ''sqlite:///./regelverk.db'') (\<lambda>v_url.
     bind_field (field Some env dotenv ''API_HOST'' ''0.0.0.0'') (\<lambda>v_host.
     bind_field (field validate_int env dotenv ''API_PORT'' 8000) (\<lambda>v_port.
     bind_field (field Some env dotenv ''LOG_LEVEL'' ''INFO'') (\<lambda>v_level.
     bind_field (forbid_extra dotenv) (\<lambda>no_extra.
       Inr \<lparr>ENV = v_env, DEBUG = v_debug, DATABASE_URL = v_url,
            API_HOST = v_host, API_PORT = v_port, LOG_LEVEL = v_level\<rparr>)))))))"

section \<open>Infrastructure: the database session dependency\<close>

text \<open>
  \<^verbatim>\<open>database.py\<close>, lines 29-39:
  \<^verbatim>\<open>
  def get_db_session() -> Generator[Session, None, None]:
      session = SessionLocal()
      try:
          yield session
      finally:
          session.close()
  \<close>
  Sessions are objects with identity: the store maps a session's address to its state.
\<close>

type_synonym session = nat

datatype session_state = Active | Closed

record store =
  next_session :: session
  sessions :: "session \<rightharpoonup> session_state"

text \<open>\<^verbatim>\<open>SessionLocal()\<close>: the session factory allocates a new session.\<close>

definition SessionLocal :: "store \<Rightarrow> session \<times> store" where
  "SessionLocal st =
     (next_session st,
      st\<lparr>next_session := Suc (next_session st),
         sessions := (sessions st)(next_session st \<mapsto> Active)\<rparr>)"

text \<open>\<^verbatim>\<open>session.close()\<close>.\<close>

definition close :: "session \<Rightarrow> store \<Rightarrow> store" where
  "close s st = st\<lparr>sessions := (sessions st)(s \<mapsto> Closed)\<rparr>"

text \<open>
  A generator object is a suspended computation. \<^verbatim>\<open>get_db_session()\<close> returns it
  before any line of the body has run; it is then resumed by its consumer, and is
  suspended again at the one \<^verbatim>\<open>yield\<close>, inside the \<^verbatim>\<open>try\<close>, holding the
  local variable \<^verbatim>\<open>session\<close>.
\<close>

datatype generator = Created | Suspended session | Finished

text \<open>
  The exceptions that matter to a generator, and all the others by the name of their
  class. \<open>StopIteration\<close> stands for the class and its subclasses.
\<close>

datatype exc = StopIteration | GeneratorExit | RuntimeError string | Exception string

text \<open>
  The consumer resumes a generator with \<^verbatim>\<open>next(g)\<close>, raises an exception into it
  with \<^verbatim>\<open>g.throw(e)\<close>, or abandons it with \<^verbatim>\<open>g.close()\<close>, which raises
  \<^verbatim>\<open>GeneratorExit\<close> at the point of suspension and swallows it when it comes back.
\<close>

datatype resumption = Next | Throw exc | Close

text \<open>
  What the consumer's call gives back: a yielded value, an exception
  (\<open>StopIteration\<close> from \<^verbatim>\<open>next\<close> when the body has run to its end), or the
  plain return of \<^verbatim>\<open>g.close()\<close>.
\<close>

datatype outcome = Yielded session | Raised exc | Returned

text \<open>
  An exception that leaves the body of a generator reaches the consumer as it is, but
  for \<open>StopIteration\<close>, which the interpreter replaces by a \<open>RuntimeError\<close>
  (PEP 479).
\<close>

definition leaves_body :: "exc \<Rightarrow> exc" where
  "leaves_body e =
     (if e = StopIteration then RuntimeError ''generator raised StopIteration'' else e)"

definition get_db_session :: generator where
  "get_db_session = Created"

text \<open>
  One resumption of the body.
  \<^item> From the start, \<^verbatim>\<open>next\<close> runs line 35, enters the \<^verbatim>\<open>try\<close> and yields
    the session. An exception thrown into a generator that has not started is raised
    before its first line: no session is created, the \<^verbatim>\<open>try\<close> is not entered,
    and the exception leaves the body.
  \<^item> At the \<^verbatim>\<open>yield\<close>, \<^verbatim>\<open>next\<close> leaves the \<^verbatim>\<open>try\<close> normally, an
    exception leaves it abnormally; either way the \<^verbatim>\<open>finally\<close> block runs line 39
    before the body is left.
  \<^item> A finished generator runs no code: \<^verbatim>\<open>next\<close> raises \<open>StopIteration\<close>,
    and a thrown exception comes back unchanged.
\<close>

fun resume :: "resumption \<Rightarrow> generator \<times> store \<Rightarrow> outcome \<times> generator \<times> store" where
  "resume Next (Created, st) =
     (let (session, st') = SessionLocal st in (Yielded session, Suspended session, st'))"
| "resume (Throw e) (Created, st) = (Raised (leaves_body e), Finished, st)"
| "resume Close (Created, st) = (Returned, Finished, st)"
| "resume Next (Suspended session, st) = (Raised StopIteration, Finished, close session st)"
| "resume (Throw e) (Suspended session, st) =
     (Raised (leaves_body e), Finished, close session st)"
| "resume Close (Suspended session, st) = (Returned, Finished, close session st)"
| "resume Next (Finished, st) = (Raised StopIteration, Finished, st)"
| "resume (Throw e) (Finished, st) = (Raised e, Finished, st)"
| "resume Close (Finished, st) = (Returned, Finished, st)"

text \<open>
  A use of the dependency: the consumer obtains the session with \<^verbatim>\<open>next\<close>, works
  with it (the store may change in any way meanwhile: \<open>work\<close>), and when it has
  finished resumes the generator one last time, with \<^verbatim>\<open>next\<close> after normal
  completion, with the exception it raised otherwise.
\<close>

definition use_db_session :: "(session \<Rightarrow> store \<Rightarrow> store) \<Rightarrow> resumption \<Rightarrow> store
    \<Rightarrow> outcome \<times> generator \<times> store" where
  "use_db_session work finish st =
     (case resume Next (get_db_session, st) of
        (Yielded session, g, st') \<Rightarrow> resume finish (g, work session st')
      | (out, g, st') \<Rightarrow> (out, g, st'))"

section \<open>Properties of the presentation layer\<close>

lemma app_routes:
  "app = [(GET, ''/health'', health_check),
          (GET, ''/api/v1/admission/'', get_admission_info),
          (GET, ''/api/v1/students/'', get_students_info),
          (GET, ''/api/v1/quotas/'', get_quotas_info)]"
  by (simp add: app_def include_router_def admission_routes_router_def
      student_routes_router_def quota_routes_router_def)

text \<open>
  Claim C1. Each of the three routers returns a single static message: whatever the rest
  of the request is, GET /api/v1/admission/ is answered with
  \<open>{"message": "Admission API"}\<close>, GET /api/v1/students/ with
  \<open>{"message": "Student API"}\<close> and GET /api/v1/quotas/ with
  \<open>{"message": "Quota API"}\<close>; and each handler gives that dictionary on every call.
\<close>

theorem routers_return_static_message:
  "serve app (r\<lparr>req_method := GET, req_path := ''/api/v1/admission/''\<rparr>)
     = Some [''message'' \<mapsto> ''Admission API'']
   \<and> serve app (r\<lparr>req_method := GET, req_path := ''/api/v1/students/''\<rparr>)
     = Some [''message'' \<mapsto> ''Student API'']
   \<and> serve app (r\<lparr>req_method := GET, req_path := ''/api/v1/quotas/''\<rparr>)
     = Some [''message'' \<mapsto> ''Quota API'']
   \<and> get_admission_info u = [''message'' \<mapsto> ''Admission API'']
   \<and> get_students_info u = [''message'' \<mapsto> ''Student API'']
   \<and> get_quotas_info u = [''message'' \<mapsto> ''Quota API'']"
  by (simp add: serve_def app_routes get_admission_info_def get_students_info_def
      get_quotas_info_def)

text \<open>
  Claim C2. The application has a health-check endpoint at GET /health, and its handler
  returns exactly the dictionary \<open>{"status": "ok"}\<close> on every invocation: one key,
  \<open>status\<close>, with the value \<open>ok\<close>.
\<close>

theorem health_check_returns_ok:
  "serve app (r\<lparr>req_method := GET, req_path := ''/health''\<rparr>) = Some [''status'' \<mapsto> ''ok'']
   \<and> health_check u = [''status'' \<mapsto> ''ok'']
   \<and> dom (health_check u) = {''status''}
   \<and> health_check u ''status'' = Some ''ok''"
  by (simp add: serve_def app_routes health_check_def)

section \<open>Properties of the settings\<close>

lemma field_default:
  "env name = None \<Longrightarrow> map_of dotenv name = None
    \<Longrightarrow> field validate env dotenv name dflt = Inr dflt"
  by (simp add: field_def raw_value_def)

lemma fields_default:
  assumes "\<forall>name \<in> set field_names. env name = None \<and> map_of dotenv name = None"
  shows "field Some env dotenv ''ENV'' ''development'' = Inr ''development''"
    and "field validate_bool env dotenv ''DEBUG'' False = Inr False"
    and "field Some env dotenv ''DATABASE_URL'' ''sqlite:///./regelverk.db''
          = Inr ''sqlite:///./regelverk.db''"
    and "field Some env dotenv ''API_HOST'' ''0.0.0.0'' = Inr ''0.0.0.0''"
    and "field validate_int env dotenv ''API_PORT'' (8000::int) = Inr 8000"
    and "field Some env dotenv ''LOG_LEVEL'' ''INFO'' = Inr ''INFO''"
proof -
  have none: "env name = None" "map_of dotenv name = None"
    if "name \<in> set field_names" for name
    using assms that by blast+
  show "field Some env dotenv ''ENV'' ''development'' = Inr ''development''"
    by (rule field_default; rule none; simp add: field_names_def)
  show "field validate_bool env dotenv ''DEBUG'' False = Inr False"
    by (rule field_default; rule none; simp add: field_names_def)
  show "field Some env dotenv ''DATABASE_URL'' ''sqlite:///./regelverk.db''
      = Inr ''sqlite:///./regelverk.db''"
    by (rule field_default; rule none; simp add: field_names_def)
  show "field Some env dotenv ''API_HOST'' ''0.0.0.0'' = Inr ''0.0.0.0''"
    by (rule field_default; rule none; simp add: field_names_def)
  show "field validate_int env dotenv ''API_PORT'' (8000::int) = Inr 8000"
    by (rule field_default; rule none; simp add: field_names_def)
  show "field Some env dotenv ''LOG_LEVEL'' ''INFO'' = Inr ''INFO''"
    by (rule field_default; rule none; simp add: field_names_def)
qed

text \<open>
  With no entry for any field, an entry of \<^verbatim>\<open>.env\<close> under any other name makes
  the construction fail, with an error that names such an entry.
\<close>

lemma Settings_extra_forbidden:
  assumes "\<forall>name \<in> set field_names. env name = None \<and> map_of dotenv name = None"
    and "extra_inputs dotenv \<noteq> []"
  shows "Settings_init validate_bool validate_int env dotenv =
           Inl (ValidationError (hd (extra_inputs dotenv)))"
proof -
  from assms(2) obtain name names where "extra_inputs dotenv = name # names"
    by (cases "extra_inputs dotenv") auto
  then show ?thesis
    by (simp add: Settings_init_def bind_field_def forbid_extra_def
        fields_default [OF assms(1)])
qed

text \<open>
  Claim C9, as it is worded, at the \<^verbatim>\<open>.env\<close> file whose one line is
  \<^verbatim>\<open>FOO=bar\<close> and an empty environment: no variable and no entry overrides any
  of the six fields, and \<^verbatim>\<open>Settings()\<close> does not have the defaults: it fails,
  naming \<open>FOO\<close>. No field has a raw value there, so no validator is called.
\<close>

theorem Settings_defaults_counterexample:
  "map (raw_value Map.empty [(''FOO'', ''bar'')]) field_names
     = [None, None, None, None, None, None]
   \<and> Settings_init Map.empty Map.empty Map.empty [(''FOO'', ''bar'')]
     = Inl (ValidationError ''FOO'')
   \<and> Settings_init Map.empty Map.empty Map.empty [(''FOO'', ''bar'')]
     \<noteq> Inr \<lparr>ENV = ''development'', DEBUG = False,
            DATABASE_URL = ''sqlite:///./regelverk.db'',
            API_HOST = ''0.0.0.0'', API_PORT = 8000, LOG_LEVEL = ''INFO''\<rparr>"
  by (simp add: Settings_init_def bind_field_def field_def raw_value_def forbid_extra_def
      extra_inputs_def field_names_def)

text \<open>
  Claim C9, amended. When neither the environment nor the \<open>.env\<close> file has an
  entry for any of the six fields, and the \<open>.env\<close> file has no entry under any
  other name, \<open>Settings()\<close> succeeds and has exactly the declared defaults:
  ENV = "development", DEBUG = False, DATABASE_URL = "sqlite:///./regelverk.db",
  API_HOST = "0.0.0.0", API_PORT = 8000, LOG_LEVEL = "INFO".
\<close>

theorem Settings_defaults:
  assumes "\<forall>name \<in> set field_names. env name = None \<and> map_of dotenv name = None"
    and "extra_inputs dotenv = []"
  shows "Settings_init validate_bool validate_int env dotenv =
           Inr \<lparr>ENV = ''development'', DEBUG = False,
                DATABASE_URL = ''sqlite:///./regelverk.db'',
                API_HOST = ''0.0.0.0'', API_PORT = 8000, LOG_LEVEL = ''INFO''\<rparr>"
  by (simp add: Settings_init_def bind_field_def forbid_extra_def assms(2)
      fields_default [OF assms(1)])

text \<open>
  The hypotheses hold of an environment that sets other variables only, here
  \<open>PATH\<close>, with an empty \<open>.env\<close> file.
\<close>

theorem Settings_defaults_witness:
  "list_all (\<lambda>name. [''PATH'' \<mapsto> ''/usr/bin''] name = None \<and> map_of ([] :: dotenv) name = None)
     field_names
   \<and> extra_inputs [] = []
   \<and> Settings_init (\<lambda>raw. None) (\<lambda>raw. None) [''PATH'' \<mapsto> ''/usr/bin''] [] =
       Inr \<lparr>ENV = ''development'', DEBUG = False,
            DATABASE_URL = ''sqlite:///./regelverk.db'',
            API_HOST = ''0.0.0.0'', API_PORT = 8000, LOG_LEVEL = ''INFO''\<rparr>"
proof -
  have h: "\<forall>name \<in> set field_names.
      [''PATH'' \<mapsto> ''/usr/bin''] name = None \<and> map_of ([] :: dotenv) name = None"
    by (simp add: field_names_def)
  have l: "list_all (\<lambda>name. [''PATH'' \<mapsto> ''/usr/bin''] name = None
      \<and> map_of ([] :: dotenv) name = None) field_names"
    by (simp add: field_names_def)
  have x: "extra_inputs [] = []"
    by (simp add: extra_inputs_def)
  from l x Settings_defaults [OF h x, of "\<lambda>raw. None" "\<lambda>raw. None"] show ?thesis
    by blast
qed

section \<open>Properties of the session dependency\<close>

lemma close_closes: "sessions (close s st) s = Some Closed"
  by (simp add: close_def)

lemma resume_suspended:
  "\<exists>out. resume finish (Suspended s, st) = (out, Finished, close s st)"
  by (cases finish) simp_all

text \<open>
  Claim C10. For every use of \<open>get_db_session\<close>, the session it creates is closed
  after the consumer finishes, on normal completion (\<open>Next\<close>) and when the consumer
  raises an exception into the generator (\<open>Throw e\<close>, \<open>Close\<close>) alike: the first
  resumption yields a new, active session, and whatever the consumer did to the store
  meanwhile (\<open>st'\<close>), the second resumption finishes the generator with that session
  closed. A thrown exception comes back to the consumer after the close, a thrown
  \<open>StopIteration\<close> as the \<open>RuntimeError\<close> the interpreter makes of it.
\<close>

theorem get_db_session_closes_session:
  "resume Next (get_db_session, st) =
     (Yielded (next_session st), Suspended (next_session st), snd (SessionLocal st))
   \<and> sessions (snd (SessionLocal st)) (next_session st) = Some Active
   \<and> fst (snd (resume finish (Suspended (next_session st), st'))) = Finished
   \<and> sessions (snd (snd (resume finish (Suspended (next_session st), st')))) (next_session st)
       = Some Closed
   \<and> fst (resume (Throw e) (Suspended (next_session st), st')) =
       Raised (if e = StopIteration then RuntimeError ''generator raised StopIteration'' else e)
   \<and> fst (resume Next (Suspended (next_session st), st')) = Raised StopIteration
   \<and> fst (snd (use_db_session work finish st)) = Finished
   \<and> sessions (snd (snd (use_db_session work finish st))) (next_session st) = Some Closed"
proof -
  obtain out where
    r: "resume finish (Suspended (next_session st), st') = (out, Finished, close (next_session st) st')"
    using resume_suspended by blast
  obtain out' where
    r': "resume finish (Suspended (next_session st), work (next_session st) (snd (SessionLocal st)))
         = (out', Finished, close (next_session st) (work (next_session st) (snd (SessionLocal st))))"
    using resume_suspended by blast
  have first: "resume Next (get_db_session, st) =
      (Yielded (next_session st), Suspended (next_session st), snd (SessionLocal st))"
    by (simp add: get_db_session_def SessionLocal_def)
  have u: "use_db_session work finish st =
      (out', Finished, close (next_session st) (work (next_session st) (snd (SessionLocal st))))"
    by (simp add: use_db_session_def first r')
  show ?thesis
    using first
    by (simp add: r u close_closes leaves_body_def) (simp add: SessionLocal_def)
qed

end
